theory Spec2Isabelle
  imports Main "HOL-Library.Sublist" "HOL-Library.Word"
begin

section \<open>Python values used by client.py\<close>

text \<open>
  A Python \<open>str\<close> is a sequence of Unicode code points, a \<open>bytes\<close> object a sequence of
  octets. String literals of the source are written with \<open>lit\<close>, which maps each ASCII
  character to its code point; the escapes \<open>\r\<close> and \<open>\n\<close> are the code points 13 and 10.
\<close>

type_synonym codepoint = nat
type_synonym str = "codepoint list"
type_synonym byte = "8 word"
type_synonym bytes = "byte list"

definition lit :: "string \<Rightarrow> str" where
  "lit cs = map of_char cs"

definition CR :: codepoint where "CR = 13"
definition LF :: codepoint where "LF = 10"

text \<open>
  The exceptions that can arise in the modelled code. \<open>socket.error\<close> is an alias of
  \<open>OSError\<close>; every error of the socket layer (\<open>ConnectionResetError\<close>,
  \<open>BrokenPipeError\<close>, \<open>socket.gaierror\<close>, \<open>socket.timeout\<close>, ...) is a subclass of it.
  \<open>ValueError\<close> is what tuple unpacking raises on a wrong number of values;
  the two Unicode errors come from \<open>str.encode()\<close> and \<open>bytes.decode()\<close>.
\<close>

datatype os_kind =
  ECONNREFUSED | ECONNRESET | EPIPE | ETIMEDOUT | ENOTCONN | EBADF | EAI_NONAME

datatype py_exception =
  OSError os_kind | ValueError | UnicodeEncodeError | UnicodeDecodeError

text \<open>The test made by a handler \<open>except socket.error\<close>.\<close>

fun is_socket_error :: "py_exception \<Rightarrow> bool" where
  "is_socket_error (OSError k) = True"
| "is_socket_error ValueError = False"
| "is_socket_error UnicodeEncodeError = False"
| "is_socket_error UnicodeDecodeError = False"

subsection \<open>\<open>str.encode()\<close> and \<open>bytes.decode()\<close>: strict UTF-8\<close>

text \<open>
  Both calls of the source take no argument, so the codec is UTF-8 with \<open>errors='strict'\<close>.
  Encoding fails on a surrogate code point (and a \<open>str\<close> holds no code point above
  U+10FFFF).
\<close>

definition utf8_encode_cp :: "codepoint \<Rightarrow> py_exception + nat list" where
  "utf8_encode_cp c =
     (if c < 0x80 then Inr [c]
      else if c < 0x800 then Inr [0xC0 + c div 64, 0x80 + c mod 64]
      else if 0xD800 \<le> c \<and> c \<le> 0xDFFF then Inl UnicodeEncodeError
      else if c < 0x10000 then
        Inr [0xE0 + c div 4096, 0x80 + (c div 64) mod 64, 0x80 + c mod 64]
      else if c < 0x110000 then
        Inr [0xF0 + c div 262144, 0x80 + (c div 4096) mod 64,
             0x80 + (c div 64) mod 64, 0x80 + c mod 64]
      else Inl UnicodeEncodeError)"

fun utf8_encode :: "str \<Rightarrow> py_exception + bytes" where
  "utf8_encode [] = Inr []"
| "utf8_encode (c # cs) =
     (case utf8_encode_cp c of
        Inl e \<Rightarrow> Inl e
      | Inr bs \<Rightarrow>
          (case utf8_encode cs of
             Inl e \<Rightarrow> Inl e
           | Inr rest \<Rightarrow> Inr (map of_nat bs @ rest)))"

text \<open>
  The decoder reads the octets left to right. \<open>need\<close> is the number of continuation
  octets still expected, \<open>acc\<close> the code point bits read so far, and \<open>lo\<close>, \<open>hi\<close> bound the
  next octet: the first continuation octet after E0, ED, F0 and F4 has a narrower range,
  which excludes overlong forms, surrogates and values above U+10FFFF.
\<close>

fun utf8_go :: "nat \<Rightarrow> nat \<Rightarrow> nat \<Rightarrow> nat \<Rightarrow> nat list \<Rightarrow> py_exception + str" where
  "utf8_go need acc lo hi [] = (if need = 0 then Inr [] else Inl UnicodeDecodeError)"
| "utf8_go need acc lo hi (b # bs) =
     (if need = 0 then
        (if b < 0x80 then
           (case utf8_go 0 0 0x80 0xBF bs of Inl e \<Rightarrow> Inl e | Inr cs \<Rightarrow> Inr (b # cs))
         else if 0xC2 \<le> b \<and> b \<le> 0xDF then utf8_go 1 (b - 0xC0) 0x80 0xBF bs
         else if b = 0xE0 then utf8_go 2 0 0xA0 0xBF bs
         else if b = 0xED then utf8_go 2 0xD 0x80 0x9F bs
         else if 0xE1 \<le> b \<and> b \<le> 0xEF then utf8_go 2 (b - 0xE0) 0x80 0xBF bs
         else if b = 0xF0 then utf8_go 3 0 0x90 0xBF bs
         else if 0xF1 \<le> b \<and> b \<le> 0xF3 then utf8_go 3 (b - 0xF0) 0x80 0xBF bs
         else if b = 0xF4 then utf8_go 3 4 0x80 0x8F bs
         else Inl UnicodeDecodeError)
      else if lo \<le> b \<and> b \<le> hi then
        (if need = 1 then
           (case utf8_go 0 0 0x80 0xBF bs of
              Inl e \<Rightarrow> Inl e
            | Inr cs \<Rightarrow> Inr ((acc * 64 + (b - 0x80)) # cs))
         else utf8_go (need - 1) (acc * 64 + (b - 0x80)) 0x80 0xBF bs)
      else Inl UnicodeDecodeError)"

definition utf8_decode :: "bytes \<Rightarrow> py_exception + str" where
  "utf8_decode bs = utf8_go 0 0 0x80 0xBF (map unat bs)"

subsection \<open>\<open>str.split(sep)\<close> and unpacking into two names\<close>

text \<open>
  \<open>text.split(sep)\<close> cuts \<open>text\<close> at every occurrence of \<open>sep\<close>, scanning from the left
  and resuming after each occurrence; no \<open>maxsplit\<close> is given in the source. An empty
  separator raises \<open>ValueError\<close>. \<open>cur\<close> is the piece being collected.
\<close>

function split_from :: "'a list \<Rightarrow> 'a list \<Rightarrow> 'a list \<Rightarrow> 'a list list" where
  "split_from sep cur [] = [cur]"
| "split_from sep cur (c # cs) =
     (if sep \<noteq> [] \<and> prefix sep (c # cs)
      then cur # split_from sep [] (drop (length sep) (c # cs))
      else split_from sep (cur @ [c]) cs)"
  by pat_completeness auto
termination
  by (relation "measure (\<lambda>(sep, cur, s). length s)") auto

definition py_split :: "'a list \<Rightarrow> 'a list \<Rightarrow> py_exception + 'a list list" where
  "py_split text sep = (if sep = [] then Inl ValueError else Inr (split_from sep [] text))"

text \<open>\<open>a, b = xs\<close> succeeds only when \<open>xs\<close> has exactly two elements.\<close>

fun unpack2 :: "'a list \<Rightarrow> py_exception + ('a \<times> 'a)" where
  "unpack2 [a, b] = Inr (a, b)"
| "unpack2 xs = Inl ValueError"

section \<open>The socket layer\<close>

text \<open>
  What the remote end and the network do on a connection is data of the model: the fault
  (if any) that a send, a receive or the closing system call meets, and the segments in
  which the peer's bytes arrive. A receive returns bytes of the first pending segment
  only, at most as many as asked for; with nothing pending it returns the empty bytes
  object (end of stream).
\<close>

record transport =
  send_fault :: "os_kind option"
  recv_fault :: "os_kind option"
  close_fault :: "os_kind option"
  inbound :: "bytes list"

datatype sock_call = GetPeerName | Close | Send bytes | Recv nat

record socket =
  peername :: "(str \<times> nat) option"
  transport :: transport
  closed :: bool
  outbound :: bytes
  calls :: "sock_call list"

record world =
  network :: "str \<times> nat \<Rightarrow> py_exception + transport"
  attempts :: "(str \<times> nat) list"

definition quiet :: transport where
  "quiet = \<lparr>send_fault = None, recv_fault = None, close_fault = None, inbound = []\<rparr>"

text \<open>\<open>socket.socket(socket.AF_INET, socket.SOCK_STREAM)\<close>: a fresh, unconnected socket.\<close>

definition new_socket :: socket where
  "new_socket = \<lparr>peername = None, transport = quiet, closed = False, outbound = [], calls = []\<rparr>"

text \<open>
  \<open>sock.connect(address)\<close>: one connection attempt, recorded in the world. Whatever the
  attempt raises (name resolution, refusal, timeout) is raised to the caller.
\<close>

definition sock_connect ::
  "world \<Rightarrow> socket \<Rightarrow> str \<times> nat \<Rightarrow> (py_exception + unit) \<times> socket \<times> world" where
  "sock_connect w s address =
     (let w' = w\<lparr>attempts := attempts w @ [address]\<rparr> in
      case network w address of
        Inl e \<Rightarrow> (Inl e, s, w')
      | Inr t \<Rightarrow> (Inr (), s\<lparr>peername := Some address, transport := t\<rparr>, w'))"

definition sock_getpeername :: "socket \<Rightarrow> (py_exception + str \<times> nat) \<times> socket" where
  "sock_getpeername s =
     (let s' = s\<lparr>calls := calls s @ [GetPeerName]\<rparr> in
      if closed s then (Inl (OSError EBADF), s')
      else case peername s of
        None \<Rightarrow> (Inl (OSError ENOTCONN), s')
      | Some a \<Rightarrow> (Inr a, s'))"

definition sock_close :: "socket \<Rightarrow> (py_exception + unit) \<times> socket" where
  "sock_close s =
     (let s' = s\<lparr>calls := calls s @ [Close], closed := True\<rparr> in
      if closed s \<or> peername s = None then (Inr (), s')
      else case close_fault (transport s) of
        Some k \<Rightarrow> (Inl (OSError k), s')
      | None \<Rightarrow> (Inr (), s'))"

definition sock_send :: "socket \<Rightarrow> bytes \<Rightarrow> (py_exception + nat) \<times> socket" where
  "sock_send s bs =
     (let s' = s\<lparr>calls := calls s @ [Send bs]\<rparr> in
      if closed s then (Inl (OSError EBADF), s')
      else if peername s = None then (Inl (OSError EPIPE), s')
      else case send_fault (transport s) of
        Some k \<Rightarrow> (Inl (OSError k), s')
      | None \<Rightarrow> (Inr (length bs), s'\<lparr>outbound := outbound s @ bs\<rparr>))"

definition sock_recv :: "socket \<Rightarrow> nat \<Rightarrow> (py_exception + bytes) \<times> socket" where
  "sock_recv s bufsize =
     (let s' = s\<lparr>calls := calls s @ [Recv bufsize]\<rparr> in
      if closed s then (Inl (OSError EBADF), s')
      else if peername s = None then (Inl (OSError ENOTCONN), s')
      else case recv_fault (transport s) of
        Some k \<Rightarrow> (Inl (OSError k), s')
      | None \<Rightarrow>
          (case inbound (transport s) of
             [] \<Rightarrow> (Inr [], s')
           | seg # rest \<Rightarrow>
               (Inr (take bufsize seg),
                s'\<lparr>transport := (transport s)\<lparr>inbound :=
                      (if drop bufsize seg = [] then rest else drop bufsize seg # rest)\<rparr>\<rparr>)))"

section \<open>WebBrowserModel\<close>

subsection \<open>\<open>connect_to_server\<close> (lines 14-30)\<close>

definition PORT :: nat where "PORT = 80"

definition connect_to_server :: "world \<Rightarrow> str \<Rightarrow> (py_exception + socket) \<times> world" where
  "connect_to_server w host =
     (let client_socket = new_socket in
      case sock_connect w client_socket (host, PORT) of
        (Inl e, client_socket', w') \<Rightarrow> (Inl e, w')
      | (Inr u, client_socket', w') \<Rightarrow> (Inr client_socket', w'))"

subsection \<open>\<open>close_connection\<close> (lines 33-50)\<close>

text \<open>The console is the list of lines printed so far.\<close>

definition no_connection_message :: str where
  "no_connection_message =
     lit ''Conex'' @ [0xE3] @ lit ''o n'' @ [0xE3] @ lit ''o existe ou j'' @ [0xE1]
       @ lit '' foi fechada.''"

definition close_connection ::
  "socket \<Rightarrow> str list \<Rightarrow> (py_exception + unit) \<times> socket \<times> str list" where
  "close_connection client_socket console =
     (case (case sock_getpeername client_socket of
              (Inl e, s1) \<Rightarrow> (Inl e, s1)
            | (Inr peer, s1) \<Rightarrow> sock_close s1) of
        (Inl e, s) \<Rightarrow>
          if is_socket_error e then (Inr (), s, console @ [no_connection_message])
          else (Inl e, s, console)
      | (Inr u, s) \<Rightarrow> (Inr (), s, console))"

subsection \<open>\<open>send_request\<close> (lines 53-84)\<close>

definition html_marker :: str where
  "html_marker = lit ''<html>''"

text \<open>Lines 66-72: encode the request, send it, receive once with a 4096-byte buffer.\<close>

definition exchange :: "str \<Rightarrow> socket \<Rightarrow> (py_exception + bytes) \<times> socket" where
  "exchange request_message client_socket =
     (case utf8_encode request_message of
        Inl e \<Rightarrow> (Inl e, client_socket)
      | Inr request_message_encoded \<Rightarrow>
          (case sock_send client_socket request_message_encoded of
             (Inl e, s1) \<Rightarrow> (Inl e, s1)
           | (Inr n, s1) \<Rightarrow> sock_recv s1 4096))"

text \<open>Lines 75-79: decode, split at the marker, unpack into heading and body, put the
  marker back in front of the body.\<close>

definition split_text :: "str \<Rightarrow> py_exception + str" where
  "split_text response_message_decoded =
     (case py_split response_message_decoded html_marker of
        Inl e \<Rightarrow> Inl e
      | Inr pieces \<Rightarrow>
          (case unpack2 pieces of
             Inl e \<Rightarrow> Inl e
           | Inr (heading, body) \<Rightarrow> Inr (html_marker @ body)))"

definition split_response :: "bytes \<Rightarrow> py_exception + str" where
  "split_response response_message =
     (case utf8_decode response_message of
        Inl e \<Rightarrow> Inl e
      | Inr response_message_decoded \<Rightarrow> split_text response_message_decoded)"

text \<open>The body of the \<open>try\<close> statement, then the handler \<open>except socket.error: return ''\<close>.
  Any other exception leaves the function.\<close>

definition send_request_try :: "str \<Rightarrow> socket \<Rightarrow> (py_exception + str) \<times> socket" where
  "send_request_try request_message client_socket =
     (case exchange request_message client_socket of
        (Inl e, s) \<Rightarrow> (Inl e, s)
      | (Inr response_message, s) \<Rightarrow> (split_response response_message, s))"

definition send_request :: "str \<Rightarrow> str \<Rightarrow> socket \<Rightarrow> (py_exception + str) \<times> socket" where
  "send_request host request_message client_socket =
     (case send_request_try request_message client_socket of
        (Inl e, s) \<Rightarrow> if is_socket_error e then (Inr [], s) else (Inl e, s)
      | (Inr body, s) \<Rightarrow> (Inr body, s))"

section \<open>WebBrowserView: the request built in \<open>search_address\<close> (line 144)\<close>

text \<open>
  The f-string \<open>f'GET /{resource_url} HTTP/1.1\r\nHost: {server_address}\r\n\r\n'\<close>:
  literal parts and replacement fields, joined in order. Both fields hold a \<open>str\<close>, whose
  formatting with an empty format specification is the string itself. The value is the
  one assigned to the variable \<open>request_message\<close>.
\<close>

datatype fpart = Literal str | Field str

fun render :: "fpart \<Rightarrow> str" where
  "render (Literal s) = s"
| "render (Field v) = v"

definition fstring :: "fpart list \<Rightarrow> str" where
  "fstring parts = concat (map render parts)"

definition build_request_message :: "str \<Rightarrow> str \<Rightarrow> str" where
  "build_request_message server_address resource_url =
     fstring [Literal (lit ''GET /''), Field resource_url,
              Literal (lit '' HTTP/1.1'' @ [CR, LF] @ lit ''Host: ''), Field server_address,
              Literal [CR, LF, CR, LF]]"


section \<open>WebBrowserController (lines 198-215)\<close>

text \<open>
  The wrappers call the model and end without a \<open>return\<close> statement, so a call that
  completes yields \<open>None\<close>. The value a Python call yields is one of the following.
\<close>

datatype py_value = PyNone | PyStr str | PySocket socket

definition controller_connect_to_server ::
  "world \<Rightarrow> str \<Rightarrow> (py_exception + py_value) \<times> world" where
  "controller_connect_to_server w host =
     (case connect_to_server w host of
        (Inl e, w') \<Rightarrow> (Inl e, w')
      | (Inr client_socket, w') \<Rightarrow> (Inr PyNone, w'))"

definition controller_send_request ::
  "str \<Rightarrow> str \<Rightarrow> socket \<Rightarrow> (py_exception + py_value) \<times> socket" where
  "controller_send_request host request_message client_socket =
     (case send_request host request_message client_socket of
        (Inl e, s) \<Rightarrow> (Inl e, s)
      | (Inr body, s) \<Rightarrow> (Inr PyNone, s))"

section \<open>Concrete connections and networks\<close>

text \<open>
  Inputs on which the model is evaluated below: byte strings written as ASCII text, a
  connected socket on which the given segments are pending, a socket whose peer has reset
  the connection, a network on which every attempt is refused, one on which every
  attempt is accepted by a server that sends the given segments, and one with an earlier
  attempt in its history whose server resets the connection before answering.
\<close>

definition ascii_bytes :: "string \<Rightarrow> bytes" where
  "ascii_bytes cs = map of_char cs"

definition localhost :: str where
  "localhost = lit ''127.0.0.1''"

definition connected_socket :: "bytes list \<Rightarrow> socket" where
  "connected_socket segs =
     \<lparr>peername = Some (localhost, 80), transport = quiet\<lparr>inbound := segs\<rparr>,
      closed = False, outbound = [], calls = []\<rparr>"

definition reset_socket :: socket where
  "reset_socket =
     \<lparr>peername = Some (localhost, 80),
      transport = quiet\<lparr>send_fault := Some EPIPE, recv_fault := Some ECONNRESET\<rparr>,
      closed = False, outbound = [], calls = []\<rparr>"

definition refusing_world :: world where
  "refusing_world = \<lparr>network = (\<lambda>address. Inl (OSError ECONNREFUSED)), attempts = []\<rparr>"

definition serving_world :: "bytes list \<Rightarrow> world" where
  "serving_world segs = \<lparr>network = (\<lambda>address. Inr (quiet\<lparr>inbound := segs\<rparr>)), attempts = []\<rparr>"

definition status_line :: bytes where
  "status_line = ascii_bytes ''HTTP/1.1 200 OK'' @ [13, 10, 13, 10]"

definition undecodable :: bytes where
  "undecodable = [0xFF]"

definition long_response :: bytes where
  "long_response = status_line @ ascii_bytes ''<html>'' @ replicate 5000 0x41"

definition hello_response :: bytes where
  "hello_response = status_line @ ascii_bytes ''<html><body>hi</body></html>''"


section \<open>Properties of splitting\<close>

text \<open>
  The number of pieces \<open>split\<close> returns is one more than the number of occurrences it
  cuts at. The marker \<open><html>\<close> begins with a character that does not occur again in it,
  so an occurrence cannot begin before the end of a marker-free heading and run into the
  marker that follows.
\<close>

lemma split_from_nonempty: "split_from sep cur s \<noteq> []"
  by (induction sep cur s rule: split_from.induct) auto

lemma split_from_no_occurrence:
  "\<not> sublist sep s \<Longrightarrow> split_from sep cur s = [cur @ s]"
proof (induction s arbitrary: cur)
  case Nil
  then show ?case by simp
next
  case (Cons c cs)
  from Cons.prems have np: "\<not> prefix sep (c # cs)" and ns: "\<not> sublist sep cs"
    by (auto simp: sublist_Cons_right)
  from Cons.IH [OF ns, of "cur @ [c]"] np show ?case by simp
qed

lemma split_from_occurrence:
  "sep \<noteq> [] \<Longrightarrow> sublist sep s \<Longrightarrow> 2 \<le> length (split_from sep cur s)"
proof (induction s arbitrary: cur)
  case Nil
  then show ?case by simp
next
  case (Cons c cs)
  show ?case
  proof (cases "prefix sep (c # cs)")
    case True
    have "1 \<le> length (split_from sep [] (drop (length sep) (c # cs)))"
      using split_from_nonempty [of sep "[]" "drop (length sep) (c # cs)"]
      by (cases "split_from sep [] (drop (length sep) (c # cs))") auto
    with True Cons.prems(1) show ?thesis by simp
  next
    case False
    with Cons.prems have "sublist sep cs" by (simp add: sublist_Cons_right)
    from Cons.IH [OF Cons.prems(1) this, of "cur @ [c]"] False show ?thesis by simp
  qed
qed

lemma split_from_skip:
  "\<not> prefix sep (c # cs) \<Longrightarrow> split_from sep cur (c # cs) = split_from sep (cur @ [c]) cs"
  by simp

lemma prefix_across_boundary:
  assumes sep: "sep = c # t" and "c \<notin> set t" and "h \<noteq> []"
    and pre: "prefix sep (h @ sep @ b)"
  shows "prefix sep h"
proof (rule ccontr)
  assume np: "\<not> prefix sep h"
  from pre have "prefix sep h \<or> (\<exists>us. sep = h @ us \<and> prefix us (sep @ b))"
    by (rule iffD1 [OF prefix_append])
  with np obtain us where us: "sep = h @ us" "prefix us (sep @ b)"
    by blast
  from np us(1) have "us \<noteq> []" by auto
  then obtain u us' where u: "us = u # us'" by (cases us) auto
  with us(2) sep have "u = c" by simp
  from assms(3) obtain x h' where h: "h = x # h'" by (cases h) auto
  with us(1) u sep have "t = h' @ u # us'" by simp
  with \<open>u = c\<close> assms(2) show False by simp
qed

lemma split_from_first_occurrence:
  assumes sep: "sep = c # t" and fresh: "c \<notin> set t" and "\<not> sublist sep h"
  shows "split_from sep cur (h @ sep @ b) = (cur @ h) # split_from sep [] b"
  using assms(3)
proof (induction h arbitrary: cur)
  case Nil
  have "prefix sep (sep @ b)" by simp
  with sep show ?case by (cases "sep @ b") auto
next
  case (Cons x xs)
  from Cons.prems have ns: "\<not> sublist sep xs" and np: "\<not> prefix sep (x # xs)"
    by (auto simp: sublist_Cons_right)
  have "\<not> prefix sep ((x # xs) @ sep @ b)"
    using prefix_across_boundary [OF sep fresh, of "x # xs" b] np by blast
  then have "\<not> prefix sep (x # (xs @ sep @ b))"
    by simp
  then have "split_from sep cur (x # (xs @ sep @ b))
      = split_from sep (cur @ [x]) (xs @ sep @ b)"
    by (rule split_from_skip)
  also have "\<dots> = ((cur @ [x]) @ xs) # split_from sep [] b"
    by (rule Cons.IH [OF ns])
  finally show ?case by simp
qed

lemma html_marker_eq: "html_marker = 60 # [104, 116, 109, 108, 62]"
  by (simp add: html_marker_def lit_def)

lemma split_text_no_marker:
  "\<not> sublist html_marker t \<Longrightarrow> split_text t = Inl ValueError"
  by (simp add: split_text_def py_split_def split_from_no_occurrence html_marker_eq)

lemma unpack2_long: "3 \<le> length xs \<Longrightarrow> unpack2 xs = Inl ValueError"
  by (cases xs rule: unpack2.cases) auto

lemma split_text_first_marker:
  assumes "\<not> sublist html_marker h"
  shows "split_text (h @ html_marker @ b) =
           (if sublist html_marker b then Inl ValueError else Inr (html_marker @ b))"
proof -
  have eq: "split_from html_marker [] (h @ html_marker @ b) = h # split_from html_marker [] b"
    using split_from_first_occurrence [OF html_marker_eq _ assms, of "[]" b]
    by simp
  show ?thesis
  proof (cases "sublist html_marker b")
    case True
    then have "2 \<le> length (split_from html_marker [] b)"
      by (intro split_from_occurrence) (simp_all add: html_marker_eq)
    then have "unpack2 (h # split_from html_marker [] b) = Inl ValueError"
      by (intro unpack2_long) simp
    with True eq show ?thesis
      by (simp add: split_text_def py_split_def html_marker_eq)
  next
    case False
    then have "split_from html_marker [] b = [b]"
      by (simp add: split_from_no_occurrence)
    with False eq show ?thesis
      by (simp add: split_text_def py_split_def html_marker_eq)
  qed
qed

section \<open>Properties of the socket layer and the codec\<close>

lemma sock_send_error: "sock_send s bs = (Inl e, s1) \<Longrightarrow> is_socket_error e"
  by (auto simp: sock_send_def Let_def split: if_splits option.splits)

lemma sock_recv_error: "sock_recv s n = (Inl e, s1) \<Longrightarrow> is_socket_error e"
  by (auto simp: sock_recv_def Let_def split: if_splits option.splits list.splits)

lemma raises_only_case:
  "r \<in> insert (Inl x) (range Inr) \<Longrightarrow>
   (case r of Inl e \<Rightarrow> Inl e | Inr cs \<Rightarrow> Inr (f cs)) \<in> insert (Inl x) (range Inr)"
  by (cases r) auto

lemma utf8_go_range:
  "utf8_go need acc lo hi bs \<in> insert (Inl UnicodeDecodeError) (range Inr)"
proof (induction bs arbitrary: need acc lo hi)
  case Nil
  show ?case by simp
next
  case (Cons b bs)
  show ?case
    by (simp only: utf8_go.simps split: if_split) (intro conjI impI Cons.IH raises_only_case insertI1)
qed

lemma utf8_decode_error: "utf8_decode bs = Inl e \<Longrightarrow> e = UnicodeDecodeError"
  using utf8_go_range [of 0 0 "0x80" "0xBF" "map unat bs"] by (auto simp: utf8_decode_def)

text \<open>The codec on one-, two-, three- and four-byte characters, and on an overlong form,
  an encoded surrogate, a value above U+10FFFF and a truncated sequence.\<close>

lemma utf8_examples:
  "utf8_decode [0x41, 0xC3, 0xA9, 0xE2, 0x82, 0xAC, 0xF0, 0x9F, 0x98, 0x80]
     = Inr [0x41, 0xE9, 0x20AC, 0x1F600]"
  "utf8_encode [0x41, 0xE9, 0x20AC, 0x1F600]
     = Inr [0x41, 0xC3, 0xA9, 0xE2, 0x82, 0xAC, 0xF0, 0x9F, 0x98, 0x80]"
  "utf8_decode [0xC0, 0x80] = Inl UnicodeDecodeError"
  "utf8_decode [0xED, 0xA0, 0x80] = Inl UnicodeDecodeError"
  "utf8_decode [0xF4, 0x90, 0x80, 0x80] = Inl UnicodeDecodeError"
  "utf8_decode [0xE2, 0x82] = Inl UnicodeDecodeError"
  "utf8_encode [0xD800] = Inl UnicodeEncodeError"
  by (simp_all add: utf8_decode_def utf8_encode_cp_def)

lemma utf8_go_ascii:
  "\<forall>b \<in> set bs. b < 0x80 \<Longrightarrow> utf8_go 0 acc lo hi bs = Inr bs"
  by (induction bs arbitrary: acc lo hi) auto

lemma utf8_encode_ascii:
  "\<forall>c \<in> set cs. c < 0x80 \<Longrightarrow> utf8_encode cs = Inr (map of_nat cs)"
  by (induction cs) (auto simp: utf8_encode_cp_def)


lemma utf8_decode_ascii:
  assumes "\<forall>b \<in> set bs. b < 0x80"
  shows "utf8_decode bs = Inr (map unat bs)"
proof -
  have "\<forall>n \<in> set (map unat bs). n < 0x80"
    using assms by (auto simp: word_less_nat_alt)
  then show ?thesis unfolding utf8_decode_def by (rule utf8_go_ascii)
qed

section \<open>Properties of \<open>send_request\<close>\<close>

lemma exchange_send_fails:
  "utf8_encode m = Inr bs \<Longrightarrow> sock_send s bs = (Inl e, s1) \<Longrightarrow> exchange m s = (Inl e, s1)"
  by (simp add: exchange_def)

lemma exchange_recv:
  "utf8_encode m = Inr bs \<Longrightarrow> sock_send s bs = (Inr n, s1) \<Longrightarrow> exchange m s = sock_recv s1 4096"
  by (simp add: exchange_def)

lemma send_request_socket_error:
  "exchange m s = (Inl e, s1) \<Longrightarrow> is_socket_error e \<Longrightarrow> send_request host m s = (Inr [], s1)"
  by (simp add: send_request_def send_request_try_def)

lemma send_request_received:
  "exchange m s = (Inr data, s1) \<Longrightarrow>
   send_request host m s =
     ((case split_response data of
         Inl e \<Rightarrow> if is_socket_error e then Inr [] else Inl e
       | Inr body \<Rightarrow> Inr body), s1)"
  by (simp add: send_request_def send_request_try_def split: sum.splits)

lemma send_request_received_fst:
  assumes "fst (exchange m s) = Inr data"
  shows "fst (send_request host m s) =
     (case split_response data of
         Inl e \<Rightarrow> if is_socket_error e then Inr [] else Inl e
       | Inr body \<Rightarrow> Inr body)"
proof -
  from assms have "exchange m s = (Inr data, snd (exchange m s))"
    by (simp add: prod_eq_iff)
  from send_request_received [OF this] show ?thesis by simp
qed

text \<open>What \<open>send_request\<close> yields on a response whose decoded text is a marker-free
  heading, the marker, and a rest: the body when the rest holds no further marker, an
  uncaught \<open>ValueError\<close> when it does.\<close>

lemma send_request_split:
  assumes "fst (exchange m s) = Inr data"
    and "utf8_decode data = Inr (h @ html_marker @ b)"
    and "\<not> sublist html_marker h"
  shows "fst (send_request host m s) =
           (if sublist html_marker b then Inl ValueError else Inr (html_marker @ b))"
  using send_request_received_fst [OF assms(1)] assms(2) split_text_first_marker [OF assms(3)]
  by (simp add: split_response_def)

text \<open>On an open, connected socket without faults the exchange logs one send and one
  receive, and hands back at most 4096 bytes of the first pending segment.\<close>

lemma exchange_established:
  assumes "utf8_encode m = Inr bs" and "\<not> closed s" and "peername s \<noteq> None"
    and "send_fault (transport s) = None" and "recv_fault (transport s) = None"
  shows "exchange m s =
    (Inr (case inbound (transport s) of [] \<Rightarrow> [] | seg # rest \<Rightarrow> take 4096 seg),
     s\<lparr>calls := calls s @ [Send bs, Recv 4096], outbound := outbound s @ bs,
       transport := (transport s)\<lparr>inbound :=
         (case inbound (transport s) of
            [] \<Rightarrow> []
          | seg # rest \<Rightarrow> if drop 4096 seg = [] then rest else drop 4096 seg # rest)\<rparr>\<rparr>)"
  using assms
  by (auto simp: exchange_def sock_send_def sock_recv_def Let_def split: list.splits)

text \<open>Whatever happens, \<open>send_request\<close> adds at most one receive to the trace of the
  socket, and only with buffer size 4096.\<close>

lemma send_request_calls:
  "\<exists>bs. calls (snd (send_request host m s)) \<in>
     {calls s, calls s @ [Send bs], calls s @ [Send bs, Recv 4096]}"
  by (auto simp: send_request_def send_request_try_def exchange_def sock_send_def
      sock_recv_def Let_def split: sum.splits list.splits option.splits)

lemma split_response_error: "split_response data = Inl e \<Longrightarrow> \<not> is_socket_error e"
proof (cases "utf8_decode data")
  case (Inl e')
  assume "split_response data = Inl e"
  with Inl utf8_decode_error [OF Inl] show ?thesis by (simp add: split_response_def)
next
  case (Inr t)
  assume "split_response data = Inl e"
  with Inr have "split_text t = Inl e" by (simp add: split_response_def)
  then have "e = ValueError"
    by (cases "unpack2 (split_from html_marker [] t)")
      (auto simp: split_text_def py_split_def html_marker_eq elim: unpack2.elims)
  then show ?thesis by simp
qed

lemma send_request_received_plain:
  assumes "exchange m s = (Inr data, s1)"
  shows "send_request host m s = (split_response data, s1)"
proof (cases "split_response data")
  case (Inl e)
  with split_response_error [OF Inl] send_request_received [OF assms, of host]
  show ?thesis by simp
next
  case (Inr body)
  with send_request_received [OF assms, of host] show ?thesis by simp
qed

section \<open>The claims\<close>

text \<open>
  C1. The claim: for every decoded text \<open>T = H + "<html>" + B\<close> with no marker in \<open>H\<close>,
  the split returns \<open>"<html>" + B\<close>, also when \<open>B\<close> holds further markers. The code splits
  at every marker and unpacks into exactly two names, so a second marker in \<open>B\<close> makes the
  unpacking raise \<open>ValueError\<close>, which the handler of \<open>send_request\<close> does not catch. The
  server here answers with the heading \<open>HTTP/1.1 200 OK\r\n\r\n\<close>, which holds no marker,
  and a document that mentions the marker once more in its text.
\<close>

theorem send_request_second_marker_raises:
  "\<not> sublist html_marker (lit ''HTTP/1.1 200 OK'' @ [CR, LF, CR, LF])
   \<and> utf8_decode (status_line @ ascii_bytes ''<html><body>The <html> tag</body></html>'')
       = Inr ((lit ''HTTP/1.1 200 OK'' @ [CR, LF, CR, LF]) @ html_marker
              @ lit ''<body>The <html> tag</body></html>'')
   \<and> fst (send_request localhost (build_request_message localhost [])
          (connected_socket
             [status_line @ ascii_bytes ''<html><body>The <html> tag</body></html>'']))
       = Inl ValueError"
proof (intro conjI)
  show "\<not> sublist html_marker (lit ''HTTP/1.1 200 OK'' @ [CR, LF, CR, LF])"
    by (simp add: html_marker_def lit_def CR_def LF_def sublist_code)
  show "utf8_decode (status_line @ ascii_bytes ''<html><body>The <html> tag</body></html>'')
       = Inr ((lit ''HTTP/1.1 200 OK'' @ [CR, LF, CR, LF]) @ html_marker
              @ lit ''<body>The <html> tag</body></html>'')"
    by (simp add: utf8_decode_def status_line_def ascii_bytes_def html_marker_def lit_def
        CR_def LF_def)
  show "fst (send_request localhost (build_request_message localhost [])
          (connected_socket
             [status_line @ ascii_bytes ''<html><body>The <html> tag</body></html>'']))
       = Inl ValueError"
    by (simp add: send_request_def send_request_try_def exchange_def split_response_def
        split_text_def py_split_def html_marker_def lit_def build_request_message_def
        fstring_def CR_def LF_def connected_socket_def ascii_bytes_def quiet_def
        sock_send_def sock_recv_def utf8_decode_def utf8_encode_cp_def localhost_def
        status_line_def)
qed

text \<open>
  C2. The claim: on a buffer whose text holds no marker, and on a buffer that does not
  decode, the split fails with a \<open>MalformedResponseError\<close> result returned to the caller,
  never with an unhandled exception. In the code an exception leaves \<open>send_request\<close> in
  both cases: \<open>ValueError\<close> for the response \<open>HTTP/1.1 200 OK\r\n\r\nPLAINTEXT\<close>,
  \<open>UnicodeDecodeError\<close> for the single byte FF (\<open>undecodable\<close>). Neither is a \<open>socket.error\<close>, the only
  class the handlers of the program catch.
\<close>

theorem send_request_malformed_counterexample:
  "fst (send_request localhost (build_request_message localhost [])
          (connected_socket [status_line @ ascii_bytes ''PLAINTEXT''])) = Inl ValueError
   \<and> \<not> is_socket_error ValueError
   \<and> fst (send_request localhost (build_request_message localhost [])
          (connected_socket [undecodable])) = Inl UnicodeDecodeError
   \<and> \<not> is_socket_error UnicodeDecodeError"
  by (simp add: send_request_def send_request_try_def exchange_def split_response_def
      split_text_def py_split_def html_marker_def lit_def build_request_message_def
      fstring_def CR_def LF_def connected_socket_def ascii_bytes_def quiet_def
      sock_send_def sock_recv_def utf8_decode_def utf8_encode_cp_def localhost_def
      status_line_def undecodable_def)

text \<open>
  C2 as amended: when the bytes received decode to a text without the marker,
  \<open>send_request\<close> raises \<open>ValueError\<close>; when they do not decode, it raises
  \<open>UnicodeDecodeError\<close>. In both cases the exception passes the handler and reaches the
  caller.
\<close>

theorem send_request_malformed_raises:
  assumes "fst (exchange request_message s) = Inr data"
  shows "(\<forall>t. utf8_decode data = Inr t \<and> \<not> sublist html_marker t \<longrightarrow>
            fst (send_request host request_message s) = Inl ValueError)
       \<and> ((\<exists>e. utf8_decode data = Inl e) \<longrightarrow>
            fst (send_request host request_message s) = Inl UnicodeDecodeError)"
proof (intro conjI allI impI)
  fix t
  assume "utf8_decode data = Inr t \<and> \<not> sublist html_marker t"
  then have "split_response data = Inl ValueError"
    by (simp add: split_response_def split_text_no_marker)
  with send_request_received_fst [OF assms]
  show "fst (send_request host request_message s) = Inl ValueError" by simp
next
  assume "\<exists>e. utf8_decode data = Inl e"
  then obtain e where e: "utf8_decode data = Inl e" ..
  from utf8_decode_error [OF e] e have "split_response data = Inl UnicodeDecodeError"
    by (simp add: split_response_def)
  with send_request_received_fst [OF assms]
  show "fst (send_request host request_message s) = Inl UnicodeDecodeError" by simp
qed

theorem send_request_malformed_raises_witness:
  "fst (exchange (build_request_message localhost [])
          (connected_socket [status_line @ ascii_bytes ''PLAINTEXT'']))
     = Inr (status_line @ ascii_bytes ''PLAINTEXT'')
   \<and> utf8_decode (status_line @ ascii_bytes ''PLAINTEXT'')
       = Inr (lit ''HTTP/1.1 200 OK'' @ [CR, LF, CR, LF] @ lit ''PLAINTEXT'')
   \<and> \<not> sublist html_marker (lit ''HTTP/1.1 200 OK'' @ [CR, LF, CR, LF] @ lit ''PLAINTEXT'')
   \<and> fst (send_request localhost (build_request_message localhost [])
          (connected_socket [status_line @ ascii_bytes ''PLAINTEXT''])) = Inl ValueError"
proof -
  have ex: "fst (exchange (build_request_message localhost [])
          (connected_socket [status_line @ ascii_bytes ''PLAINTEXT'']))
     = Inr (status_line @ ascii_bytes ''PLAINTEXT'')"
    by (simp add: exchange_def build_request_message_def fstring_def lit_def CR_def LF_def
        localhost_def utf8_encode_cp_def connected_socket_def quiet_def sock_send_def
        sock_recv_def status_line_def ascii_bytes_def)
  have dec: "utf8_decode (status_line @ ascii_bytes ''PLAINTEXT'')
       = Inr (lit ''HTTP/1.1 200 OK'' @ [CR, LF, CR, LF] @ lit ''PLAINTEXT'')"
    by (simp add: utf8_decode_def status_line_def ascii_bytes_def lit_def CR_def LF_def)
  have nm: "\<not> sublist html_marker
       (lit ''HTTP/1.1 200 OK'' @ [CR, LF, CR, LF] @ lit ''PLAINTEXT'')"
    by (simp add: html_marker_def lit_def CR_def LF_def sublist_code)
  from send_request_malformed_raises [OF ex, of localhost] dec nm
  have "fst (send_request localhost (build_request_message localhost [])
          (connected_socket [status_line @ ascii_bytes ''PLAINTEXT''])) = Inl ValueError"
    by blast
  with ex dec nm show ?thesis by blast
qed

text \<open>
  C3. For every host (the non-empty ones among them) and every resource path (the empty
  one among them) the request built at line 144 is \<open>GET /\<close>, the path,
  \<open> HTTP/1.1\r\nHost: \<close>, the host and \<open>\r\n\r\n\<close>, code point for code point: both
  inputs appear unchanged and nothing else is added. The second equation spells the
  literal parts out as code points.
\<close>

theorem build_request_message_exact:
  "build_request_message host resourcePath =
     lit ''GET /'' @ resourcePath @ lit '' HTTP/1.1'' @ [CR, LF] @ lit ''Host: '' @ host
       @ [CR, LF, CR, LF]
   \<and> build_request_message host resourcePath =
     [71, 69, 84, 32, 47] @ resourcePath @ [32, 72, 84, 84, 80, 47, 49, 46, 49, 13, 10,
       72, 111, 115, 116, 58, 32] @ host @ [13, 10, 13, 10]"
  by (simp add: build_request_message_def fstring_def lit_def CR_def LF_def)

text \<open>
  C4. When the request has been encoded and the send raises, or the send succeeds and
  the receive raises, \<open>send_request\<close> returns the empty string: every exception of the
  socket layer is a \<open>socket.error\<close>, which the handler turns into \<open>''\<close>.
\<close>

theorem send_request_transport_failure:
  assumes "utf8_encode request_message = Inr bs"
    and "isl (fst (sock_send s bs)) \<or> isl (fst (sock_recv (snd (sock_send s bs)) 4096))"
  shows "fst (send_request host request_message s) = Inr []"
proof (cases "fst (sock_send s bs)")
  case (Inl e)
  then have a: "sock_send s bs = (Inl e, snd (sock_send s bs))"
    by (simp add: prod_eq_iff)
  from exchange_send_fails [OF assms(1) a] sock_send_error [OF a]
  show ?thesis by (simp add: send_request_socket_error)
next
  case (Inr n)
  then have a: "sock_send s bs = (Inr n, snd (sock_send s bs))"
    by (simp add: prod_eq_iff)
  from Inr assms(2) obtain e where
    "fst (sock_recv (snd (sock_send s bs)) 4096) = Inl e"
    by (cases "fst (sock_recv (snd (sock_send s bs)) 4096)") auto
  then have b: "sock_recv (snd (sock_send s bs)) 4096
      = (Inl e, snd (sock_recv (snd (sock_send s bs)) 4096))"
    by (simp add: prod_eq_iff)
  from exchange_recv [OF assms(1) a] b
  have "exchange request_message s = (Inl e, snd (sock_recv (snd (sock_send s bs)) 4096))"
    by simp
  with sock_recv_error [OF b] show ?thesis by (simp add: send_request_socket_error)
qed

theorem send_request_transport_failure_witness:
  "utf8_encode (build_request_message localhost [])
     = Inr (map of_nat (build_request_message localhost []))
   \<and> fst (sock_send reset_socket (map of_nat (build_request_message localhost [])))
       = Inl (OSError EPIPE)
   \<and> fst (send_request localhost (build_request_message localhost []) reset_socket) = Inr []"
proof -
  have enc: "utf8_encode (build_request_message localhost [])
     = Inr (map of_nat (build_request_message localhost []))"
    by (rule utf8_encode_ascii)
      (simp add: build_request_message_def fstring_def lit_def CR_def LF_def localhost_def)
  have snd: "fst (sock_send reset_socket (map of_nat (build_request_message localhost [])))
       = Inl (OSError EPIPE)"
    by (simp add: sock_send_def reset_socket_def quiet_def)
  from send_request_transport_failure [OF enc, of reset_socket localhost] snd
  have "fst (send_request localhost (build_request_message localhost []) reset_socket) = Inr []"
    by simp
  with enc snd show ?thesis by blast
qed

text \<open>
  C5. On an established connection (open and connected, the send meeting no fault)
  \<open>send_request\<close> makes one send and then exactly one receive, with buffer size 4096,
  whether or not that receive succeeds. When it succeeds and a segment \<open>seg\<close> is pending,
  the bytes received are the first 4096 bytes of \<open>seg\<close> (all of it when it is shorter),
  the bytes beyond them stay pending and are never read, and the outcome of
  \<open>send_request\<close> is that of splitting those first bytes alone: a longer response is cut
  at 4096 bytes and the exchange raises nothing on that account. At the end of the stream
  the receive yields the empty buffer.
\<close>

theorem send_request_single_bounded_read:
  assumes "utf8_encode request_message = Inr bs" and "\<not> closed s" and "peername s \<noteq> None"
    and "send_fault (transport s) = None"
  shows "calls (snd (send_request host request_message s)) = calls s @ [Send bs, Recv 4096]
       \<and> outbound (snd (send_request host request_message s)) = outbound s @ bs
       \<and> (\<forall>seg rest. recv_fault (transport s) = None \<and> inbound (transport s) = seg # rest \<longrightarrow>
             exchange request_message s =
               (Inr (take 4096 seg),
                s\<lparr>calls := calls s @ [Send bs, Recv 4096], outbound := outbound s @ bs,
                  transport := (transport s)\<lparr>inbound :=
                    (if drop 4096 seg = [] then rest else drop 4096 seg # rest)\<rparr>\<rparr>)
           \<and> length (take 4096 seg) = min 4096 (length seg)
           \<and> fst (send_request host request_message s) = split_response (take 4096 seg)
           \<and> inbound (transport (snd (send_request host request_message s))) =
               (if drop 4096 seg = [] then rest else drop 4096 seg # rest))
       \<and> (recv_fault (transport s) = None \<and> inbound (transport s) = [] \<longrightarrow>
             fst (exchange request_message s) = Inr []
           \<and> fst (send_request host request_message s) = split_response [])"
proof (intro conjI allI impI)
  show "calls (snd (send_request host request_message s)) = calls s @ [Send bs, Recv 4096]"
    using assms
    by (auto simp: send_request_def send_request_try_def exchange_def sock_send_def
        sock_recv_def Let_def split: sum.splits list.splits option.splits)
  show "outbound (snd (send_request host request_message s)) = outbound s @ bs"
    using assms
    by (auto simp: send_request_def send_request_try_def exchange_def sock_send_def
        sock_recv_def Let_def split: sum.splits list.splits option.splits)
next
  fix seg rest
  assume a: "recv_fault (transport s) = None \<and> inbound (transport s) = seg # rest"
  then have rf: "recv_fault (transport s) = None" and inb: "inbound (transport s) = seg # rest"
    by simp_all
  show ex: "exchange request_message s =
               (Inr (take 4096 seg),
                s\<lparr>calls := calls s @ [Send bs, Recv 4096], outbound := outbound s @ bs,
                  transport := (transport s)\<lparr>inbound :=
                    (if drop 4096 seg = [] then rest else drop 4096 seg # rest)\<rparr>\<rparr>)"
    using exchange_established [OF assms rf] inb by simp
  show "length (take 4096 seg) = min 4096 (length seg)"
    by simp
  show "fst (send_request host request_message s) = split_response (take 4096 seg)"
    using send_request_received_plain [OF ex, of host] by simp
  show "inbound (transport (snd (send_request host request_message s))) =
               (if drop 4096 seg = [] then rest else drop 4096 seg # rest)"
    using send_request_received_plain [OF ex, of host] by simp
next
  assume a: "recv_fault (transport s) = None \<and> inbound (transport s) = []"
  then have rf: "recv_fault (transport s) = None" and inb: "inbound (transport s) = []"
    by simp_all
  have ex: "exchange request_message s =
      (Inr [], s\<lparr>calls := calls s @ [Send bs, Recv 4096], outbound := outbound s @ bs,
                 transport := (transport s)\<lparr>inbound := []\<rparr>\<rparr>)"
    using exchange_established [OF assms rf] inb by simp
  then show "fst (exchange request_message s) = Inr []"
    by simp
  show "fst (send_request host request_message s) = split_response []"
    using send_request_received_plain [OF ex, of host] by simp
qed

text \<open>
  The witness: the server sends 5025 bytes in one segment, the heading, the marker and
  5000 letters A. One receive takes the first 4096 of them, 929 letters stay unread, and
  \<open>send_request\<close> returns the marker followed by 4071 letters.
\<close>

theorem send_request_single_bounded_read_witness:
  "utf8_encode (build_request_message localhost [])
     = Inr (map of_nat (build_request_message localhost []))
   \<and> \<not> closed (connected_socket [long_response])
   \<and> peername (connected_socket [long_response]) \<noteq> None
   \<and> send_fault (transport (connected_socket [long_response])) = None
   \<and> recv_fault (transport (connected_socket [long_response])) = None
   \<and> inbound (transport (connected_socket [long_response])) = [long_response]
   \<and> length long_response = 5025
   \<and> calls (snd (send_request localhost (build_request_message localhost [])
                     (connected_socket [long_response])))
        = [Send (map of_nat (build_request_message localhost [])), Recv 4096]
   \<and> fst (exchange (build_request_message localhost []) (connected_socket [long_response]))
        = Inr (status_line @ ascii_bytes ''<html>'' @ replicate 4071 0x41)
   \<and> length (status_line @ ascii_bytes ''<html>'' @ replicate 4071 (0x41 :: byte)) = 4096
   \<and> inbound (transport (snd (send_request localhost (build_request_message localhost [])
                                  (connected_socket [long_response]))))
        = [replicate 929 0x41]
   \<and> fst (send_request localhost (build_request_message localhost [])
             (connected_socket [long_response]))
        = Inr (html_marker @ replicate 4071 0x41)"
proof -
  let ?s = "connected_socket [long_response]"
  let ?m = "build_request_message localhost []"
  let ?data = "status_line @ ascii_bytes ''<html>'' @ replicate 4071 (0x41 :: byte)"
  have enc: "utf8_encode ?m = Inr (map of_nat ?m)"
    by (rule utf8_encode_ascii)
      (simp add: build_request_message_def fstring_def lit_def CR_def LF_def localhost_def)
  have h: "\<not> closed ?s" "peername ?s \<noteq> None" "send_fault (transport ?s) = None"
    by (simp_all add: connected_socket_def quiet_def)
  have rf: "recv_fault (transport ?s) = None"
    by (simp add: connected_socket_def quiet_def)
  have inb: "inbound (transport ?s) = [long_response]"
    by (simp add: connected_socket_def quiet_def)
  have c0: "calls ?s = []"
    by (simp add: connected_socket_def)
  have len: "length long_response = 5025"
    by (simp add: long_response_def status_line_def ascii_bytes_def)
  have tk: "take 4096 long_response = ?data"
    by (simp add: long_response_def status_line_def ascii_bytes_def)
  have dr: "drop 4096 long_response = replicate 929 0x41"
    by (simp add: long_response_def status_line_def ascii_bytes_def)
  have len': "length ?data = 4096"
    by (simp add: status_line_def ascii_bytes_def)
  let ?h = "lit ''HTTP/1.1 200 OK'' @ [CR, LF, CR, LF]"
  let ?b = "replicate 4071 (0x41 :: codepoint)"
  have d1: "utf8_decode ?data = Inr (map unat ?data)"
    by (rule utf8_decode_ascii) (auto simp: status_line_def ascii_bytes_def)
  have d2: "map unat ?data = ?h @ html_marker @ ?b"
    by (simp add: status_line_def ascii_bytes_def lit_def CR_def LF_def html_marker_def)
  have dec: "utf8_decode ?data = Inr (?h @ html_marker @ ?b)"
    using d1 unfolding d2 .
  have nh: "\<not> sublist html_marker ?h"
    by (simp add: html_marker_def lit_def CR_def LF_def sublist_code)
  have nb: "\<not> sublist html_marker ?b"
    using set_mono_sublist [of html_marker ?b]
    by (auto simp: html_marker_eq)
  have "split_text (?h @ html_marker @ ?b) = Inr (html_marker @ ?b)"
    using split_text_first_marker [OF nh, of ?b] nb by (simp only: if_False)
  then have sp: "split_response ?data = Inr (html_marker @ replicate 4071 0x41)"
    by (simp only: split_response_def dec sum.case)
  note bounded = send_request_single_bounded_read [OF enc h, of localhost]
  from bounded c0 have tr: "calls (snd (send_request localhost ?m ?s))
        = [Send (map of_nat ?m), Recv 4096]"
    by simp
  from bounded rf inb have "exchange ?m ?s =
               (Inr (take 4096 long_response),
                ?s\<lparr>calls := calls ?s @ [Send (map of_nat ?m), Recv 4096],
                   outbound := outbound ?s @ map of_nat ?m,
                   transport := (transport ?s)\<lparr>inbound :=
                    (if drop 4096 long_response = [] then [] else drop 4096 long_response # [])\<rparr>\<rparr>)"
    and "fst (send_request localhost ?m ?s) = split_response (take 4096 long_response)"
    and "inbound (transport (snd (send_request localhost ?m ?s))) =
               (if drop 4096 long_response = [] then [] else drop 4096 long_response # [])"
    by blast+
  with tk dr sp have "fst (exchange ?m ?s) = Inr ?data"
    and "fst (send_request localhost ?m ?s) = Inr (html_marker @ replicate 4071 0x41)"
    and "inbound (transport (snd (send_request localhost ?m ?s))) = [replicate 929 0x41]"
    by simp_all
  with enc h rf inb len len' tr show ?thesis by blast
qed

text \<open>
  C6. For every socket, whatever its state (never connected, already closed, reset by the
  peer, or connected, and whether or not the closing system call meets a fault),
  \<open>close_connection\<close> returns normally: every exception of \<open>getpeername\<close> and \<open>close\<close> is
  a \<open>socket.error\<close> and is caught. The message is printed exactly when one was caught, and
  the socket ends up closed exactly when it was closed before or was connected.
\<close>

theorem close_connection_never_raises:
  "fst (close_connection s console) = Inr ()
   \<and> snd (snd (close_connection s console)) =
       (if closed s \<or> peername s = None \<or> close_fault (transport s) \<noteq> None
        then console @ [no_connection_message] else console)
   \<and> closed (fst (snd (close_connection s console))) = (closed s \<or> peername s \<noteq> None)"
  by (auto simp: close_connection_def sock_getpeername_def sock_close_def Let_def
      split: option.splits)

theorem close_connection_never_raises_witness:
  "peername new_socket = None \<and> \<not> closed new_socket
   \<and> fst (close_connection new_socket []) = Inr ()
   \<and> snd (snd (close_connection new_socket [])) = [no_connection_message]
   \<and> \<not> closed (fst (snd (close_connection new_socket [])))"
  using close_connection_never_raises [of new_socket "[]"]
  by (simp add: new_socket_def)

text \<open>
  C7. For every host, \<open>connect_to_server\<close> makes exactly one connection attempt, to that
  host on port 80. When the attempt raises, the same exception is raised to the caller at
  once, and no second attempt follows; when it succeeds, the connected socket is returned.
\<close>

theorem connect_to_server_single_attempt:
  "attempts (snd (connect_to_server w host)) = attempts w @ [(host, 80)]
   \<and> network (snd (connect_to_server w host)) = network w
   \<and> (\<forall>e. network w (host, 80) = Inl e \<longrightarrow> fst (connect_to_server w host) = Inl e)
   \<and> (\<forall>t. network w (host, 80) = Inr t \<longrightarrow>
        fst (connect_to_server w host) =
          Inr (new_socket\<lparr>peername := Some (host, 80), transport := t\<rparr>))"
  by (auto simp: connect_to_server_def sock_connect_def PORT_def Let_def split: sum.splits)

theorem connect_to_server_single_attempt_witness:
  "network refusing_world (localhost, 80) = Inl (OSError ECONNREFUSED)
   \<and> is_socket_error (OSError ECONNREFUSED)
   \<and> fst (connect_to_server refusing_world localhost) = Inl (OSError ECONNREFUSED)
   \<and> attempts (snd (connect_to_server refusing_world localhost)) = [(localhost, 80)]"
  using connect_to_server_single_attempt [of refusing_world localhost]
  by (simp add: refusing_world_def)



text \<open>
  C9. The controller's \<open>connect_to_server\<close> and \<open>send_request\<close> never hand the model's
  result on: whenever the wrapper returns, it returns \<open>None\<close>, and it returns whenever the
  model does, so the caller gets neither the socket nor the body. (When the model raises,
  so does the wrapper.)
\<close>

theorem controller_returns_none:
  "(\<forall>v. fst (controller_connect_to_server w host) = Inr v \<longrightarrow> v = PyNone)
   \<and> (\<forall>v. fst (controller_send_request host request_message s) = Inr v \<longrightarrow> v = PyNone)
   \<and> (\<forall>client_socket. fst (connect_to_server w host) = Inr client_socket \<longrightarrow>
        fst (controller_connect_to_server w host) = Inr PyNone)
   \<and> (\<forall>body. fst (send_request host request_message s) = Inr body \<longrightarrow>
        fst (controller_send_request host request_message s) = Inr PyNone)"
  by (auto simp: controller_connect_to_server_def controller_send_request_def
      split: prod.splits sum.splits)

theorem controller_returns_none_witness:
  "fst (connect_to_server (serving_world [hello_response]) localhost)
     = Inr (connected_socket [hello_response])
   \<and> fst (controller_connect_to_server (serving_world [hello_response]) localhost) = Inr PyNone
   \<and> fst (send_request localhost (build_request_message localhost [])
            (connected_socket [hello_response]))
       = Inr (lit ''<html><body>hi</body></html>'')
   \<and> fst (controller_send_request localhost (build_request_message localhost [])
            (connected_socket [hello_response])) = Inr PyNone"
proof -
  have c: "fst (connect_to_server (serving_world [hello_response]) localhost)
     = Inr (connected_socket [hello_response])"
    by (simp add: connect_to_server_def sock_connect_def PORT_def serving_world_def
        connected_socket_def new_socket_def)
  have r: "fst (send_request localhost (build_request_message localhost [])
            (connected_socket [hello_response]))
       = Inr (lit ''<html><body>hi</body></html>'')"
    by (simp add: send_request_def send_request_try_def exchange_def split_response_def
        split_text_def py_split_def html_marker_def lit_def build_request_message_def
        fstring_def CR_def LF_def connected_socket_def ascii_bytes_def quiet_def
        sock_send_def sock_recv_def utf8_decode_def utf8_encode_cp_def localhost_def
        status_line_def hello_response_def)
  from controller_returns_none [of "serving_world [hello_response]" localhost
      "build_request_message localhost []" "connected_socket [hello_response]"] c r
  show ?thesis by blast
qed

text \<open>
  C10. The \<open>host\<close> argument of \<open>send_request\<close> is not used: with the same request and the
  same socket, any two hosts give the same result and leave the socket in the same state.
\<close>

theorem send_request_ignores_host:
  "send_request host1 request_message s = send_request host2 request_message s"
  by (simp add: send_request_def)

end
